theory Spec2Isabelle
  imports Main
begin

section \<open>Python values used by \<^verbatim>\<open>codegen/datatypes.py\<close>\<close>

text \<open>
  A Python \<^verbatim>\<open>str\<close> is a \<^typ>\<open>string\<close>: one \<^typ>\<open>char\<close> per code point, which
  covers the code points below 256. The exceptions the module can raise are values of
  \<open>py_error\<close>; a function that can raise returns \<open>py_error + 'a\<close>, with \<open>Inl\<close> the
  exception.
\<close>

datatype py_error =
    AssertionError
  | ValueError string
  | UnboundLocalError string

abbreviation sq :: string where
  "sq \<equiv> [CHR 0x27]"

abbreviation backslash :: string where
  "backslash \<equiv> [CHR 0x5C]"

text \<open>\<^verbatim>\<open>' ' * n\<close> and \<^verbatim>\<open>'-' * n\<close>.\<close>

definition spaces :: "nat \<Rightarrow> string" where
  "spaces n = replicate n CHR '' ''"

definition dashes :: "nat \<Rightarrow> string" where
  "dashes n = replicate n CHR ''-''"

text \<open>
  \<^verbatim>\<open>str.isspace\<close> on one character, for the code points below 256: tab, line feed,
  vertical tab, form feed, carriage return, the four separators 0x1C to 0x1F, the space,
  NEL (0x85) and the no-break space (0xA0).
\<close>

definition is_space :: "char \<Rightarrow> bool" where
  "is_space c = (c \<in> set [CHR 0x09, CHR 0x0A, CHR 0x0B, CHR 0x0C, CHR 0x0D,
                            CHR 0x1C, CHR 0x1D, CHR 0x1E, CHR 0x1F, CHR 0x20,
                            CHR 0x85, CHR 0xA0])"

text \<open>\<^verbatim>\<open>s.strip()\<close>: whitespace removed at both ends.\<close>

definition strip :: "string \<Rightarrow> string" where
  "strip s = rev (dropWhile is_space (rev (dropWhile is_space s)))"

text \<open>
  \<^verbatim>\<open>s.split(c)\<close> for a separator of one character: the empty string gives one empty
  field, and a separator at the end gives a last empty field.
\<close>

fun split_on :: "char \<Rightarrow> string \<Rightarrow> string list" where
  "split_on c [] = [[]]"
| "split_on c (x # xs) =
     (if x = c then [] # split_on c xs
      else (case split_on c xs of
              [] \<Rightarrow> [[x]]
            | field # fields \<Rightarrow> (x # field) # fields))"

text \<open>\<^verbatim>\<open>sep.join(xs)\<close>.\<close>

fun join :: "string \<Rightarrow> string list \<Rightarrow> string" where
  "join sep [] = []"
| "join sep [x] = x"
| "join sep (x # y # ys) = x @ sep @ join sep (y # ys)"

section \<open>The schema node\<close>

text \<open>
  Modelled from the spec: the class \<^verbatim>\<open>PlotlyNode\<close> of \<^verbatim>\<open>codegen/utils.py\<close> is not
  part of the sources; \<^verbatim>\<open>datatypes.py\<close> only reads its attributes. A node has one of
  three kinds, an ordered list of children, and the attributes below, each named as the
  attribute the generator reads (\<open>datatype_str\<close> is \<^verbatim>\<open>node.datatype\<close>, the valType tag).
  \<open>validator\<close> is the result of \<^verbatim>\<open>get_validator_instance()\<close>, \<open>None\<close> when the node
  has no validator and otherwise the text of the validator's \<^verbatim>\<open>description()\<close>;
  \<open>constructor_params_docstring\<close> is the text returned by
  \<^verbatim>\<open>get_constructor_params_docstring(indent=8)\<close>; \<open>arrayOk\<close> is the schema's
  mark of that name; \<open>node_data\<close> is the fixed value of a literal node.
\<close>

datatype node_kind = Compound | LeafValue | Literal

record node_attrs =
  kind :: node_kind
  plotly_name :: string
  name_property :: string
  name_undercase :: string
  name_datatype_class :: string
  name_base_datatype :: string
  name_validator_class :: string
  parent_dotpath_str :: string
  parent_path_str :: string
  is_array_element :: bool
  arrayOk :: bool
  datatype_str :: string
  description :: string
  node_data :: string
  validator :: "string option"
  constructor_params_docstring :: string

datatype plotly_node = PlotlyNode (attrs: node_attrs) (children: "plotly_node list")

definition is_compound :: "plotly_node \<Rightarrow> bool" where
  "is_compound n = (kind (attrs n) = Compound)"

definition is_literal :: "plotly_node \<Rightarrow> bool" where
  "is_literal n = (kind (attrs n) = Literal)"

text \<open>
  Modelled from the spec: \<^verbatim>\<open>child_datatypes\<close>, \<^verbatim>\<open>child_literals\<close> and
  \<^verbatim>\<open>child_compound_datatypes\<close> are properties of \<^verbatim>\<open>PlotlyNode\<close>; they select the
  non-literal, the literal and the compound children, in the order of the tree.
\<close>

definition child_datatypes :: "plotly_node \<Rightarrow> plotly_node list" where
  "child_datatypes n = filter (\<lambda>c. \<not> is_literal c) (children n)"

definition child_literals :: "plotly_node \<Rightarrow> plotly_node list" where
  "child_literals n = filter is_literal (children n)"

definition child_compound_datatypes :: "plotly_node \<Rightarrow> plotly_node list" where
  "child_compound_datatypes n = filter is_compound (children n)"

section \<open>The type mapper\<close>

text \<open>The tags \<^verbatim>\<open>get_typing_type\<close> tests for, in the order of its branches.\<close>

definition plotly_types :: "string list" where
  "plotly_types =
     [''data_array'', ''info_array'', ''colorlist'',
      ''string'', ''color'', ''colorscale'', ''subplotid'',
      ''enumerated'', ''flaglist'', ''any'',
      ''number'', ''angle'',
      ''integer'',
      ''boolean'']"

definition pytype_of :: "string \<Rightarrow> py_error + string" where
  "pytype_of plotly_type =
     (if plotly_type \<in> set [''data_array'', ''info_array'', ''colorlist''] then Inr ''List''
      else if plotly_type \<in> set [''string'', ''color'', ''colorscale'', ''subplotid'']
        then Inr ''str''
      else if plotly_type \<in> set [''enumerated'', ''flaglist'', ''any''] then Inr ''Any''
      else if plotly_type \<in> set [''number'', ''angle''] then Inr ''Number''
      else if plotly_type = ''integer'' then Inr ''int''
      else if plotly_type = ''boolean'' then Inr ''bool''
      else Inl (ValueError (''Unknown plotly type: '' @ plotly_type)))"

definition get_typing_type :: "string \<Rightarrow> bool \<Rightarrow> py_error + string" where
  "get_typing_type plotly_type array_ok =
     (case pytype_of plotly_type of
        Inl e \<Rightarrow> Inl e
      | Inr pytype \<Rightarrow>
          if array_ok then Inr (''Union['' @ pytype @ '', List['' @ pytype @ '']]'')
          else Inr pytype)"

section \<open>The text formatter\<close>

text \<open>
  \<^verbatim>\<open>textwrap.wrap(text, initial_indent=' ' * 8, subsequent_indent=' ' * 8, width=79 - 8)\<close>
  belongs to Python's library, not to the generator: the functions below take it as the
  parameter \<open>wrap\<close>, from a text to its wrapped lines.
\<close>

type_synonym wrapper = "string \<Rightarrow> string list"

text \<open>
  \<^verbatim>\<open>reindent_validator_description(validator, extra_indent)\<close>; the first argument
  here is the text of \<^verbatim>\<open>validator.description()\<close>, and \<open>extra_indent\<close> is a natural
  number (the generator passes 4).
\<close>

definition reindent_validator_description :: "string \<Rightarrow> nat \<Rightarrow> string" where
  "reindent_validator_description validator_description extra_indent =
     join (''\<newline>'' @ spaces extra_indent)
       (split_on CHR ''\<newline>'' (strip validator_description))"

text \<open>
  The reading of \<^verbatim>\<open>reindent\<close> in the specification, to compare with the function
  above: the first line without leading indent, and every later line with the baseline
  of four spaces taken off and \<open>new_indent\<close> spaces put in front.
\<close>

definition strip_baseline :: "string \<Rightarrow> string" where
  "strip_baseline l = (if take 4 l = spaces 4 then drop 4 l else l)"

definition reindent_spec :: "string \<Rightarrow> nat \<Rightarrow> string" where
  "reindent_spec validator_description new_indent =
     (let ls = split_on CHR ''\<newline>'' (strip validator_description)
      in join ''\<newline>''
           (hd ls # map (\<lambda>l. spaces new_indent @ strip_baseline l) (tl ls)))"

section \<open>The constructor signature\<close>

text \<open>
  \<^verbatim>\<open>add_constructor_params(buffer, subtype_nodes)\<close>. The \<^verbatim>\<open>StringIO\<close> buffer is the
  text written so far; a \<^verbatim>\<open>buffer.write(s)\<close> appends \<open>s\<close>.
\<close>

definition add_constructor_params :: "string \<Rightarrow> plotly_node list \<Rightarrow> string" where
  "add_constructor_params buffer subtype_nodes =
     (let buffer = foldl (\<lambda>buffer subtype_node.
                      buffer @ '',\<newline>            '' @ name_property (attrs subtype_node)
                        @ ''=None'')
                    buffer subtype_nodes;
          buffer = buffer @ '',\<newline>            **kwargs'';
          buffer = buffer @ ''\<newline>        ):''
      in buffer)"

section \<open>The class docstring\<close>

definition add_docstring ::
  "wrapper \<Rightarrow> string \<Rightarrow> plotly_node \<Rightarrow> string \<Rightarrow> py_error + string" where
  \<open>add_docstring wrap buffer node header =
     (if \<not> is_compound node then Inl AssertionError
      else
        let node_description = description (attrs node);
            node_description =
              (if node_description \<noteq> []
               then join ''\<newline>'' (wrap node_description) @ ''\<newline>\<newline>''
               else node_description);
            buffer = buffer @ ''\<newline>        """\<newline>        '' @ header
                       @ ''\<newline>        \<newline>'' @ node_description
                       @ ''        Parameters\<newline>        ----------'';
            buffer = buffer @ constructor_params_docstring (attrs node);
            buffer = buffer @ ''\<newline>\<newline>        Returns\<newline>        -------\<newline>        ''
                       @ name_datatype_class (attrs node) @ ''\<newline>        """''
        in Inr buffer)\<close>

section \<open>The class emitter\<close>

subsection \<open>One property: type, docstring, accessor and mutator\<close>

definition prop_type_of :: "string \<Rightarrow> plotly_node \<Rightarrow> py_error + string" where
  "prop_type_of undercase subtype_node =
     (let sub_datatype_class = name_datatype_class (attrs subtype_node)
      in if is_array_element (attrs subtype_node)
           then Inr (''Tuple[d_'' @ undercase @ ''.'' @ sub_datatype_class @ '']'')
         else if is_compound subtype_node
           then Inr (''d_'' @ undercase @ ''.'' @ sub_datatype_class)
         else get_typing_type (datatype_str (attrs subtype_node)) False)"

definition property_docstring :: "wrapper \<Rightarrow> plotly_node \<Rightarrow> string" where
  "property_docstring wrap subtype_node =
     (let raw_description = description (attrs subtype_node);
          property_description = join ''\<newline>'' (wrap raw_description)
      in case validator (attrs subtype_node) of
           Some v \<Rightarrow>
             (let validator_description = reindent_validator_description v 4
              in if strip property_description \<noteq> []
                   then property_description @ ''\<newline>    \<newline>        ''
                          @ validator_description
                 else ''        '' @ validator_description)
         | None \<Rightarrow> property_description)"

text \<open>
  The reading of the property docstring in the specification, to compare with the function
  above: the two texts with the separator between them when both are non-empty, the one
  that is non-empty when only one is, and nothing when neither is. A node without a
  validator has no validator description.
\<close>

definition property_docstring_spec :: "wrapper \<Rightarrow> plotly_node \<Rightarrow> string" where
  "property_docstring_spec wrap subtype_node =
     (let property_description = join ''\<newline>'' (wrap (description (attrs subtype_node)));
          validator_description =
            (case validator (attrs subtype_node) of
               None \<Rightarrow> []
             | Some v \<Rightarrow> reindent_validator_description v 4)
      in if property_description \<noteq> [] \<and> validator_description \<noteq> []
           then property_description @ ''\<newline>    \<newline>        '' @ validator_description
         else if validator_description \<noteq> [] then ''        '' @ validator_description
         else property_description)"

definition get_property_text :: "string \<Rightarrow> string \<Rightarrow> string \<Rightarrow> string" where
  \<open>get_property_text name prop_type docstring =
     ''\<newline>    # '' @ name
       @ ''\<newline>    # '' @ dashes (length name)
       @ ''\<newline>    @property\<newline>    def '' @ name @ ''(self) -> '' @ prop_type
       @ '':\<newline>        """\<newline>'' @ docstring
       @ ''\<newline>        """\<newline>        return self['' @ sq @ name @ sq @ '']''\<close>

definition set_property_text :: "string \<Rightarrow> string" where
  "set_property_text name =
     ''\<newline>\<newline>    @'' @ name @ ''.setter\<newline>    def '' @ name
       @ ''(self, val):\<newline>        self['' @ sq @ name @ sq @ ''] = val\<newline>''"

text \<open>
  The loop over \<^verbatim>\<open>subtype_nodes\<close>. Its state is the buffer and the local variable
  \<^verbatim>\<open>prop_type\<close>, which is unbound (\<open>None\<close>) until the first pass has assigned it and
  keeps the value of the last pass afterwards.
\<close>

fun write_properties ::
  "wrapper \<Rightarrow> string \<Rightarrow> string \<times> string option \<Rightarrow> plotly_node list
     \<Rightarrow> py_error + string \<times> string option" where
  "write_properties wrap undercase (buffer, prop_type) [] = Inr (buffer, prop_type)"
| "write_properties wrap undercase (buffer, prop_type) (subtype_node # subtype_nodes) =
     (case prop_type_of undercase subtype_node of
        Inl e \<Rightarrow> Inl e
      | Inr t \<Rightarrow>
          (let name = name_property (attrs subtype_node);
               buffer = buffer
                 @ get_property_text name t (property_docstring wrap subtype_node);
               buffer = buffer @ set_property_text name
           in write_properties wrap undercase (buffer, Some t) subtype_nodes))"

text \<open>
  What one pass of the loop writes for a child: the two writes, the accessor with its
  docstring and then the mutator.
\<close>

definition accessor_pair :: "wrapper \<Rightarrow> plotly_node \<Rightarrow> string \<Rightarrow> string" where
  "accessor_pair wrap c t =
     get_property_text (name_property (attrs c)) t (property_docstring wrap c)
       @ set_property_text (name_property (attrs c))"

subsection \<open>Read-only literals\<close>

definition literal_property_text :: "string \<Rightarrow> string \<Rightarrow> string" where
  "literal_property_text name prop_type =
     ''\<newline>    # '' @ name
       @ ''\<newline>    # '' @ dashes (length name)
       @ ''\<newline>    @property\<newline>    def '' @ name @ ''(self) -> '' @ prop_type
       @ '':\<newline>        return self._props['' @ sq @ name @ sq @ '']\<newline>''"

text \<open>
  The loop over \<^verbatim>\<open>literal_nodes\<close> reads \<^verbatim>\<open>prop_type\<close>, the variable of the loop
  before it; read while unbound, it raises \<^verbatim>\<open>UnboundLocalError\<close>.
\<close>

fun write_literals ::
  "string option \<Rightarrow> string \<Rightarrow> plotly_node list \<Rightarrow> py_error + string" where
  "write_literals prop_type buffer [] = Inr buffer"
| "write_literals prop_type buffer (literal_node # literal_nodes) =
     (case prop_type of
        None \<Rightarrow> Inl (UnboundLocalError ''prop_type'')
      | Some t \<Rightarrow>
          write_literals prop_type
            (buffer @ literal_property_text (name_property (attrs literal_node)) t)
            literal_nodes)"

subsection \<open>The sections of the class text\<close>

definition write_imports :: "string \<Rightarrow> plotly_node \<Rightarrow> string" where
  "write_imports buffer node =
     (let undercase = name_undercase (attrs node);
          buffer = buffer @ ''from typing import *\<newline>'';
          buffer = buffer @ ''from numbers import Number\<newline>'';
          buffer = buffer @ ''from plotly.basedatatypes import ''
                     @ name_base_datatype (attrs node) @ ''\<newline>'';
          buffer = buffer @ ''from plotly.validators'' @ parent_dotpath_str (attrs node)
                     @ '' import '' @ undercase @ '' as v_'' @ undercase @ ''\<newline>'';
          buffer = (if child_compound_datatypes node \<noteq> []
                    then buffer @ ''from plotly.graph_objs'' @ parent_dotpath_str (attrs node)
                           @ '' import '' @ undercase @ '' as d_'' @ undercase @ ''\<newline>''
                    else buffer)
      in buffer)"

definition write_class_definition :: "string \<Rightarrow> plotly_node \<Rightarrow> string" where
  "write_class_definition buffer node =
     buffer @ ''\<newline>\<newline>class '' @ name_datatype_class (attrs node) @ ''(''
       @ name_base_datatype (attrs node) @ ''):\<newline>''"

definition write_private_properties :: "string \<Rightarrow> plotly_node \<Rightarrow> string" where
  \<open>write_private_properties buffer node =
     (let buffer = buffer
            @ ''\<newline>\<newline>    # property parent name\<newline>    # --------------------''
            @ ''\<newline>    @property\<newline>    def _parent_path_str(self) -> str:''
            @ ''\<newline>        return '' @ sq @ parent_path_str (attrs node) @ sq
            @ ''\<newline>\<newline>    # Self properties description''
            @ ''\<newline>    # ---------------------------''
            @ ''\<newline>    @property\<newline>    def _prop_descriptions(self) -> str:''
            @ ''\<newline>        return """'' @ backslash;
          buffer = buffer @ constructor_params_docstring (attrs node);
          buffer = buffer @ ''\<newline>        """''
      in buffer)\<close>

definition literal_nodes_of :: "plotly_node \<Rightarrow> plotly_node list" where
  "literal_nodes_of node =
     filter (\<lambda>n. plotly_name (attrs n) \<in> set [''type'']) (child_literals node)"

definition write_constructor_body :: "string \<Rightarrow> plotly_node \<Rightarrow> plotly_node list \<Rightarrow> string" where
  "write_constructor_body buffer node subtype_nodes =
     (let undercase = name_undercase (attrs node);
          buffer = buffer @ ''\<newline>        super().__init__('' @ sq @ name_property (attrs node)
                     @ sq @ '', **kwargs)\<newline>\<newline>        # Initialize validators''
                     @ ''\<newline>        # ---------------------'';
          buffer = foldl (\<lambda>buffer subtype_node.
                      buffer @ ''\<newline>        self._validators[''
                        @ sq @ name_property (attrs subtype_node) @ sq @ ''] = v_'' @ undercase
                        @ ''.'' @ name_validator_class (attrs subtype_node) @ ''()'')
                    buffer subtype_nodes;
          buffer = buffer @ ''\<newline>\<newline>        # Populate data dict with properties''
                     @ ''\<newline>        # ----------------------------------'';
          buffer = foldl (\<lambda>buffer subtype_node.
                      buffer @ ''\<newline>        self.'' @ name_property (attrs subtype_node)
                        @ '' = '' @ name_property (attrs subtype_node))
                    buffer subtype_nodes;
          literal_nodes = literal_nodes_of node;
          buffer = (if literal_nodes \<noteq> []
                    then foldl (\<lambda>buffer literal_node.
                             buffer @ ''\<newline>        self._props[''
                               @ sq @ name_property (attrs literal_node) @ sq @ ''] = ''
                               @ sq @ node_data (attrs literal_node) @ sq)
                           (buffer @ ''\<newline>\<newline>        # Read-only literals''
                              @ ''\<newline>        # ------------------'')
                           literal_nodes
                    else buffer)
      in buffer)"

subsection \<open>\<^verbatim>\<open>build_datatype_py\<close>\<close>

definition build_datatype_py :: "wrapper \<Rightarrow> plotly_node \<Rightarrow> py_error + string" where
  "build_datatype_py wrap node =
     (if \<not> is_compound node then Inl AssertionError
      else
        let undercase = name_undercase (attrs node);
            datatype_class = name_datatype_class (attrs node);
            literal_nodes = literal_nodes_of node;
            buffer = [];
            buffer = write_imports buffer node;
            buffer = write_class_definition buffer node;
            child_datatype_nodes = child_datatypes node;
            subtype_nodes = child_datatype_nodes
        in case write_properties wrap undercase (buffer, None) subtype_nodes of
             Inl e \<Rightarrow> Inl e
           | Inr (buffer, prop_type) \<Rightarrow>
               (case write_literals prop_type buffer literal_nodes of
                  Inl e \<Rightarrow> Inl e
                | Inr buffer \<Rightarrow>
                    (let buffer = write_private_properties buffer node;
                         buffer = buffer @ ''\<newline>    def __init__(self'';
                         buffer = add_constructor_params buffer subtype_nodes;
                         header = ''Construct a new '' @ datatype_class @ '' object''
                     in case add_docstring wrap buffer node header of
                          Inl e \<Rightarrow> Inl e
                        | Inr buffer \<Rightarrow>
                            Inr (write_constructor_body buffer node subtype_nodes))))"

section \<open>Example nodes\<close>

text \<open>
  A stand-in for \<^verbatim>\<open>textwrap.wrap\<close> that agrees with it on the texts of the examples:
  nothing for the empty text, and one line behind the indent of eight spaces for a short
  text of single-spaced words.
\<close>

definition wrap_short :: wrapper where
  "wrap_short text = (if text = [] then [] else [spaces 8 @ text])"

definition leaf_attrs :: "string \<Rightarrow> string \<Rightarrow> string \<Rightarrow> node_attrs" where
  "leaf_attrs name class_name val_type =
     \<lparr>kind = LeafValue, plotly_name = name, name_property = name, name_undercase = name,
      name_datatype_class = class_name, name_base_datatype = ''BaseTraceHierarchyType'',
      name_validator_class = class_name @ ''Validator'',
      parent_dotpath_str = ''.scatter.marker'', parent_path_str = ''scatter.marker'',
      is_array_element = False, arrayOk = False, datatype_str = val_type,
      description = [], node_data = [], validator = None,
      constructor_params_docstring = []\<rparr>"

definition color_node :: plotly_node where
  "color_node =
     PlotlyNode ((leaf_attrs ''color'' ''Color'' ''color'')
       \<lparr>description := ''Sets the marker color'',
        validator := Some ''    The color property is a color:\<newline>      - A hex string''\<rparr>) []"

definition size_node :: plotly_node where
  "size_node = PlotlyNode ((leaf_attrs ''size'' ''Size'' ''number'')\<lparr>arrayOk := True\<rparr>) []"

definition x_node :: plotly_node where
  "x_node = PlotlyNode ((leaf_attrs ''x'' ''X'' ''data_array'')
       \<lparr>parent_dotpath_str := ''.scatter'', parent_path_str := ''scatter''\<rparr>) []"

definition type_node :: "string \<Rightarrow> plotly_node" where
  "type_node v = PlotlyNode ((leaf_attrs ''type'' ''Type'' ''literal'')
       \<lparr>kind := Literal, node_data := v,
        parent_dotpath_str := [], parent_path_str := []\<rparr>) []"

definition trace_attrs :: "string \<Rightarrow> string \<Rightarrow> node_attrs" where
  "trace_attrs name class_name =
     (leaf_attrs name class_name ''compound'')
       \<lparr>kind := Compound, name_base_datatype := ''BaseTraceType'',
        parent_dotpath_str := [], parent_path_str := []\<rparr>"

definition marker_node :: plotly_node where
  "marker_node =
     PlotlyNode ((leaf_attrs ''marker'' ''Marker'' ''compound'')
       \<lparr>kind := Compound, parent_dotpath_str := ''.scatter'', parent_path_str := ''scatter'',
        constructor_params_docstring :=
          ''\<newline>        color\<newline>            Sets the marker color\<newline>        size\<newline>''\<rparr>)
       [color_node, size_node]"

text \<open>A trace with one property and the literal \<^verbatim>\<open>type\<close>.\<close>

definition scatter_node :: plotly_node where
  "scatter_node = PlotlyNode (trace_attrs ''scatter'' ''Scatter'') [x_node, type_node ''scatter'']"

text \<open>Two traces whose only child is the literal \<^verbatim>\<open>type\<close>.\<close>

definition scatter_type_only_node :: plotly_node where
  "scatter_type_only_node =
     PlotlyNode (trace_attrs ''scatter'' ''Scatter'') [type_node ''scatter'']"

definition bar_type_only_node :: plotly_node where
  "bar_type_only_node = PlotlyNode (trace_attrs ''bar'' ''Bar'') [type_node ''bar'']"

section \<open>Properties of the type mapper\<close>

lemma pytype_of_known:
  "t \<in> set plotly_types \<Longrightarrow>
     pytype_of t \<in> Inr ` {''List'', ''str'', ''Any'', ''Number'', ''int'', ''bool''}"
  unfolding plotly_types_def pytype_of_def by auto

lemma pytype_of_unknown:
  "t \<notin> set plotly_types \<Longrightarrow> pytype_of t = Inl (ValueError (''Unknown plotly type: '' @ t))"
  unfolding plotly_types_def pytype_of_def by simp

text \<open>
  Claim C1. With \<^verbatim>\<open>array_ok=False\<close>, \<^verbatim>\<open>get_typing_type\<close> returns a non-empty type
  expression for every tag its branches name, and for every other tag it raises the
  \<^verbatim>\<open>ValueError\<close> for an unknown type and returns nothing.
\<close>

theorem get_typing_type_total_on_tags:
  "(t \<in> set plotly_types \<longrightarrow> (\<exists>s. get_typing_type t False = Inr s \<and> s \<noteq> [])) \<and>
   (t \<notin> set plotly_types \<longrightarrow>
      get_typing_type t False = Inl (ValueError (''Unknown plotly type: '' @ t)))"
proof (intro conjI impI)
  assume "t \<in> set plotly_types"
  from pytype_of_known [OF this]
  show "\<exists>s. get_typing_type t False = Inr s \<and> s \<noteq> []"
    unfolding get_typing_type_def by auto
next
  assume "t \<notin> set plotly_types"
  from pytype_of_unknown [OF this]
  show "get_typing_type t False = Inl (ValueError (''Unknown plotly type: '' @ t))"
    unfolding get_typing_type_def by simp
qed

theorem get_typing_type_total_on_tags_witness:
  "''integer'' \<in> set plotly_types \<and>
   (\<exists>s. get_typing_type ''integer'' False = Inr s \<and> s \<noteq> []) \<and>
   ''geo'' \<notin> set plotly_types \<and>
   get_typing_type ''geo'' False = Inl (ValueError ''Unknown plotly type: geo'')"
proof -
  have a: "''integer'' \<in> set plotly_types" by (simp add: plotly_types_def)
  have b: "''geo'' \<notin> set plotly_types" by (simp add: plotly_types_def)
  show ?thesis
    using a b get_typing_type_total_on_tags [of "''integer''"]
      get_typing_type_total_on_tags [of "''geo''"]
    by simp
qed


section \<open>Text helpers\<close>

lemma foldl_write: "foldl (\<lambda>buffer n. buffer @ f n) buffer ns = buffer @ concat (map f ns)"
  by (induction ns arbitrary: buffer) simp_all

lemma split_on_not_Nil: "split_on c s \<noteq> []"
  by (cases s) (simp_all split: list.splits)

lemma split_on_no_sep: "c \<notin> set s \<Longrightarrow> split_on c s = [s]"
  by (induction s) auto

lemma split_on_append: "split_on c (a @ c # b) = split_on c a @ split_on c b"
proof (induction a)
  case Nil
  show ?case by simp
next
  case (Cons x a)
  then show ?case
    using split_on_not_Nil [of c a] by (cases "split_on c a") simp_all
qed

lemma split_on_fields: "l \<in> set (split_on c s) \<Longrightarrow> c \<notin> set l"
proof (induction s arbitrary: l)
  case Nil
  then show ?case by simp
next
  case (Cons x s)
  show ?case
  proof (cases "x = c")
    case True
    with Cons show ?thesis by auto
  next
    case False
    obtain h t where ht: "split_on c s = h # t"
      using split_on_not_Nil [of c s] by (cases "split_on c s") auto
    with Cons False show ?thesis by auto
  qed
qed

lemma join_Cons: "join sep (x # xs) = x @ concat (map (\<lambda>l. sep @ l) xs)"
  by (induction xs arbitrary: x) simp_all

lemma split_on_join_fields:
  "c \<notin> set x \<Longrightarrow> \<forall>l \<in> set xs. c \<notin> set l \<Longrightarrow>
     split_on c (x @ concat (map (\<lambda>l. c # l) xs)) = x # xs"
proof (induction xs arbitrary: x)
  case Nil
  then show ?case by (simp add: split_on_no_sep)
next
  case (Cons y ys)
  have "split_on c (x @ c # (y @ concat (map (\<lambda>l. c # l) ys)))
          = split_on c x @ split_on c (y @ concat (map (\<lambda>l. c # l) ys))"
    by (rule split_on_append)
  with Cons show ?case by (simp add: split_on_no_sep)
qed

lemma add_constructor_params_text:
  "add_constructor_params buffer ns =
     buffer @ concat (map (\<lambda>n. '',\<newline>            '' @ name_property (attrs n) @ ''=None'') ns)
       @ '',\<newline>            **kwargs\<newline>        ):''"
  by (simp add: add_constructor_params_def foldl_write)

lemma params_fields:
  assumes "\<forall>n \<in> set ns. CHR '','' \<notin> set (name_property (attrs n))"
  shows "split_on CHR '','' (add_constructor_params [] ns) =
     [] # map (\<lambda>n. ''\<newline>            '' @ name_property (attrs n) @ ''=None'') ns
       @ [''\<newline>            **kwargs\<newline>        ):'']"
proof -
  let ?f = "\<lambda>n. ''\<newline>            '' @ name_property (attrs n) @ ''=None''"
  let ?xs = "map ?f ns @ [''\<newline>            **kwargs\<newline>        ):'']"
  have "add_constructor_params [] ns = [] @ concat (map (\<lambda>l. CHR '','' # l) ?xs)"
    by (simp add: add_constructor_params_text comp_def)
  moreover have "\<forall>l \<in> set ?xs. CHR '','' \<notin> set l"
    using assms by auto
  ultimately show ?thesis
    using split_on_join_fields [of "CHR '',''" "[]" ?xs] by simp
qed

lemma literal_not_param:
  assumes "distinct (map (\<lambda>c. name_property (attrs c)) (children node))"
    and "l \<in> set (children node)" and "is_literal l"
  shows "name_property (attrs l) \<notin> set (map (\<lambda>c. name_property (attrs c)) (child_datatypes node))"
proof
  assume "name_property (attrs l) \<in> set (map (\<lambda>c. name_property (attrs c)) (child_datatypes node))"
  then obtain c where c: "c \<in> set (children node)" "\<not> is_literal c"
      "name_property (attrs c) = name_property (attrs l)"
    by (auto simp: child_datatypes_def)
  with assms have "c = l"
    by (metis distinct_map inj_onD)
  with c assms show False by simp
qed

lemmas example_defs = wrap_short_def leaf_attrs_def color_node_def size_node_def x_node_def
  type_node_def trace_attrs_def marker_node_def scatter_node_def scatter_type_only_node_def
  bar_type_only_node_def is_literal_def is_compound_def child_datatypes_def child_literals_def
  child_compound_datatypes_def literal_nodes_of_def

section \<open>The precondition of the emitter\<close>

lemma pytype_of_error: "pytype_of t = Inl e \<Longrightarrow> e = ValueError (''Unknown plotly type: '' @ t)"
  by (simp add: pytype_of_def split: if_splits)

lemma get_typing_type_error:
  "get_typing_type t b = Inl e \<Longrightarrow> e = ValueError (''Unknown plotly type: '' @ t)"
  by (auto simp: get_typing_type_def split: sum.splits if_splits dest: pytype_of_error)

lemma prop_type_of_error: "prop_type_of u c = Inl e \<Longrightarrow> e \<noteq> AssertionError"
  by (auto simp: prop_type_of_def Let_def split: if_splits dest: get_typing_type_error)

lemma write_properties_error:
  "write_properties wrap u st cs = Inl e \<Longrightarrow> e \<noteq> AssertionError"
proof (induction wrap u st cs rule: write_properties.induct)
  case (1 wrap undercase buffer prop_type)
  then show ?case by simp
next
  case (2 wrap undercase buffer prop_type subtype_node subtype_nodes)
  show ?case
  proof (cases "prop_type_of undercase subtype_node")
    case (Inl e')
    with "2.prems" show ?thesis by (auto dest: prop_type_of_error)
  next
    case (Inr t)
    with "2.prems" "2.IH" show ?thesis by (simp add: Let_def)
  qed
qed

lemma write_literals_error:
  "write_literals pt buffer ls = Inl e \<Longrightarrow> e = UnboundLocalError ''prop_type''"
  by (induction pt buffer ls rule: write_literals.induct) (auto split: option.splits)

lemma add_docstring_compound:
  "is_compound node \<Longrightarrow> \<exists>buffer'. add_docstring wrap buffer node header = Inr buffer'"
  by (simp add: add_docstring_def Let_def)

text \<open>
  Claim C4. On a node that is not compound \<^verbatim>\<open>build_datatype_py\<close> fails at its first
  statement, the assertion, and returns no text; on a compound node the assertion passes:
  whatever the call does afterwards, it does not end in an \<^verbatim>\<open>AssertionError\<close>.
\<close>

theorem build_datatype_py_asserts_compound:
  "(\<not> is_compound node \<longrightarrow> build_datatype_py wrap node = Inl AssertionError) \<and>
   (is_compound node \<longrightarrow> build_datatype_py wrap node \<noteq> Inl AssertionError)"
proof (intro conjI impI)
  assume "\<not> is_compound node"
  then show "build_datatype_py wrap node = Inl AssertionError"
    by (simp add: build_datatype_py_def)
next
  assume c: "is_compound node"
  show "build_datatype_py wrap node \<noteq> Inl AssertionError"
  proof
    assume a: "build_datatype_py wrap node = Inl AssertionError"
    let ?start = "(write_class_definition (write_imports [] node) node, None)"
    show False
    proof (cases "write_properties wrap (name_undercase (attrs node)) ?start (child_datatypes node)")
      case (Inl e)
      with a c have "e = AssertionError" by (simp add: build_datatype_py_def Let_def)
      with Inl show False by (auto dest: write_properties_error)
    next
      case (Inr st)
      obtain buffer pt where st: "st = (buffer, pt)" by (cases st)
      show False
      proof (cases "write_literals pt buffer (literal_nodes_of node)")
        case (Inl e)
        with a c Inr st have "e = AssertionError" by (simp add: build_datatype_py_def Let_def)
        with Inl show False by (auto dest: write_literals_error)
      next
        case buf: (Inr buffer')
        from add_docstring_compound [OF c]
        obtain b where
          "add_docstring wrap
             (add_constructor_params
                (write_private_properties buffer' node @ ''\<newline>    def __init__(self'')
                (child_datatypes node))
             node (''Construct a new '' @ name_datatype_class (attrs node) @ '' object'') = Inr b"
          by blast
        with a c Inr st buf show False by (simp add: build_datatype_py_def Let_def)
      qed
    qed
  qed
qed

theorem build_datatype_py_asserts_compound_witness:
  "\<not> is_compound x_node \<and> build_datatype_py wrap_short x_node = Inl AssertionError \<and>
   is_compound marker_node \<and> build_datatype_py wrap_short marker_node \<noteq> Inl AssertionError"
proof -
  have a: "\<not> is_compound x_node" by (simp add: example_defs)
  have b: "is_compound marker_node" by (simp add: example_defs)
  from a b build_datatype_py_asserts_compound [of x_node wrap_short]
    build_datatype_py_asserts_compound [of marker_node wrap_short]
  show ?thesis by simp
qed

section \<open>Reindenting a validator description\<close>

lemma dropWhile_keeps_last:
  "xs \<noteq> [] \<Longrightarrow> \<not> P (last xs) \<Longrightarrow> dropWhile P xs \<noteq> [] \<and> last (dropWhile P xs) = last xs"
  by (induction xs) (auto split: if_splits)

lemma strip_no_leading_space: "strip s = [] \<or> \<not> is_space (hd (strip s))"
proof (cases "dropWhile is_space s = []")
  case True
  then have "strip s = []" unfolding strip_def by (simp del: dropWhile_eq_Nil_conv)
  then show ?thesis by simp
next
  case False
  let ?a = "dropWhile is_space s"
  from False have h: "\<not> is_space (hd ?a)" by (rule hd_dropWhile)
  from False have "rev ?a \<noteq> []" "last (rev ?a) = hd ?a" by (simp_all add: last_rev)
  with h have "dropWhile is_space (rev ?a) \<noteq> []"
    "last (dropWhile is_space (rev ?a)) = hd ?a"
    using dropWhile_keeps_last [of "rev ?a" is_space] by simp_all
  then have "hd (strip s) = hd ?a" by (simp add: strip_def hd_rev)
  with h show ?thesis by simp
qed

lemma hd_split_on_no_leading_space:
  assumes "s = [] \<or> \<not> is_space (hd s)"
  shows "takeWhile is_space (hd (split_on CHR ''\<newline>'' s)) = []"
proof (cases s)
  case Nil
  then show ?thesis by simp
next
  case (Cons x xs)
  with assms have "\<not> is_space x" by simp
  moreover from this have "x \<noteq> CHR ''\<newline>''" by (auto simp: is_space_def)
  ultimately show ?thesis using Cons by (simp split: list.splits)
qed

lemma reindent_lines:
  "split_on CHR ''\<newline>'' (reindent_validator_description d k) =
     hd (split_on CHR ''\<newline>'' (strip d))
       # map (\<lambda>l. spaces k @ l) (tl (split_on CHR ''\<newline>'' (strip d)))"
proof -
  obtain x xs where ls: "split_on CHR ''\<newline>'' (strip d) = x # xs"
    using split_on_not_Nil [of "CHR ''\<newline>''" "strip d"]
    by (cases "split_on CHR ''\<newline>'' (strip d)") auto
  have free: "CHR ''\<newline>'' \<notin> set x" "\<forall>l \<in> set xs. CHR ''\<newline>'' \<notin> set l"
    using split_on_fields [of _ "CHR ''\<newline>''" "strip d"] ls by auto
  have "reindent_validator_description d k =
          x @ concat (map (\<lambda>l. CHR ''\<newline>'' # l) (map (\<lambda>l. spaces k @ l) xs))"
    by (simp add: reindent_validator_description_def ls join_Cons comp_def)
  moreover have "\<forall>l \<in> set (map (\<lambda>l. spaces k @ l) xs). CHR ''\<newline>'' \<notin> set l"
    using free by (auto simp: spaces_def)
  ultimately show ?thesis
    using split_on_join_fields [of "CHR ''\<newline>''" x "map (\<lambda>l. spaces k @ l) xs"] free ls
    by simp
qed

text \<open>
  Claim C6, as the specification reads it, fails: the lines after the first keep their own
  indent, and \<open>extra_indent\<close> spaces are put in front of it. On a description of two
  lines at the baseline of four spaces and \<open>extra_indent = 4\<close> the second line comes
  out behind eight spaces, not four.
\<close>

theorem reindent_spec_counterexample:
  "reindent_validator_description ''    a\<newline>    b'' 4 = ''a\<newline>        b'' \<and>
   reindent_validator_description ''    a\<newline>    b'' 4 \<noteq> reindent_spec ''    a\<newline>    b'' 4"
  by (simp add: reindent_validator_description_def reindent_spec_def strip_baseline_def
      strip_def is_space_def spaces_def Let_def eval_nat_numeral)

text \<open>
  Claim C6, amended. The lines of the result are the lines of the stripped description:
  the first as it is, with no whitespace in front, and every later line unchanged behind
  exactly \<open>extra_indent\<close> more spaces.
\<close>

theorem reindent_validator_description_keeps_baseline:
  "split_on CHR ''\<newline>'' (reindent_validator_description d k) =
     hd (split_on CHR ''\<newline>'' (strip d))
       # map (\<lambda>l. spaces k @ l) (tl (split_on CHR ''\<newline>'' (strip d)))
   \<and> takeWhile is_space (hd (split_on CHR ''\<newline>'' (reindent_validator_description d k))) = []"
  using reindent_lines [of d k] hd_split_on_no_leading_space [OF strip_no_leading_space, of d]
  by simp


section \<open>The text of a class\<close>

lemma write_properties_types:
  "write_properties wrap u (buffer, pt) cs = Inr st' \<Longrightarrow>
     \<exists>ts. list_all2 (\<lambda>c t. prop_type_of u c = Inr t) cs ts"
proof (induction cs arbitrary: buffer pt)
  case Nil
  show ?case by simp
next
  case (Cons c cs)
  show ?case
  proof (cases "prop_type_of u c")
    case (Inl e)
    with Cons.prems show ?thesis by simp
  next
    case (Inr t)
    with Cons.prems have "\<exists>b. write_properties wrap u (b, Some t) cs = Inr st'"
      by (auto simp: Let_def)
    with Cons.IH obtain ts where
      "list_all2 (\<lambda>c t. prop_type_of u c = Inr t) cs ts" by blast
    with Inr have "list_all2 (\<lambda>c t. prop_type_of u c = Inr t) (c # cs) (t # ts)"
      by simp
    then show ?thesis by blast
  qed
qed

lemma write_properties_run:
  "list_all2 (\<lambda>c t. prop_type_of u c = Inr t) cs ts \<Longrightarrow>
     write_properties wrap u (buffer, pt) cs =
       Inr (buffer @ concat (map2 (accessor_pair wrap) cs ts),
            if ts = [] then pt else Some (last ts))"
proof (induction cs ts arbitrary: buffer pt rule: list_all2_induct)
  case Nil
  show ?case by simp
next
  case (Cons c t cs ts)
  then show ?case by (simp add: Let_def accessor_pair_def)
qed

lemma write_literals_bound:
  "write_literals (Some t) buffer ls =
     Inr (buffer @ concat (map (\<lambda>l. literal_property_text (name_property (attrs l)) t) ls))"
  by (induction ls arbitrary: buffer) simp_all

lemma write_literals_unbound:
  "write_literals None buffer ls =
     (if ls = [] then Inr buffer else Inl (UnboundLocalError ''prop_type''))"
  by (cases ls) simp_all


lemma write_private_properties_appends:
  "write_private_properties buffer node = buffer @ write_private_properties [] node"
  by (simp add: write_private_properties_def Let_def)








section \<open>The literal accessor and the variable of the property loop\<close>

text \<open>
  The accessor of a literal child is annotated with \<^verbatim>\<open>prop_type\<close>, which only a pass
  of the property loop assigns. A compound node without non-literal children and with
  the literal \<^verbatim>\<open>type\<close> therefore raises \<^verbatim>\<open>UnboundLocalError\<close>.
\<close>

lemma build_datatype_py_unbound_prop_type:
  assumes "is_compound node" "child_datatypes node = []" "literal_nodes_of node \<noteq> []"
  shows "build_datatype_py wrap node = Inl (UnboundLocalError ''prop_type'')"
proof -
  from assms(3) obtain l ls where "literal_nodes_of node = l # ls"
    by (cases "literal_nodes_of node") auto
  with assms(1,2) show ?thesis
    by (simp add: build_datatype_py_def Let_def)
qed

text \<open>
  Without the literal \<^verbatim>\<open>type\<close>, a compound node without non-literal children gets its
  class: no accessor pair, and a constructor whose only parameter is \<^verbatim>\<open>**kwargs\<close>.
\<close>

lemma zero_property_class_without_type_literal:
  assumes "is_compound node" "child_datatypes node = []" "literal_nodes_of node = []"
  shows "\<exists>tail. build_datatype_py wrap node =
           Inr (write_class_definition (write_imports [] node) node
                  @ write_private_properties [] node
                  @ ''\<newline>    def __init__(self,\<newline>            **kwargs\<newline>        ):''
                  @ tail)"
proof -
  let ?head = "write_class_definition (write_imports [] node) node"
  have p: "write_private_properties ?head node = ?head @ write_private_properties [] node"
    by (rule write_private_properties_appends)
  show ?thesis
    using assms
    by (simp add: build_datatype_py_def Let_def add_docstring_def add_constructor_params_text
        write_constructor_body_def p)
qed

text \<open>
  With a non-literal child before it, the literal gets its accessor, annotated with the
  type of the last property, and the constructor seeds \<^verbatim>\<open>self._props\<close>: the whole text
  for a trace with the property \<^verbatim>\<open>x\<close> and the literal \<^verbatim>\<open>type\<close>.
\<close>

lemma scatter_node_class_text:
  \<open>build_datatype_py wrap_short scatter_node =
     Inr (''from typing import *\<newline>''
        @ ''from numbers import Number\<newline>''
        @ ''from plotly.basedatatypes import BaseTraceType\<newline>''
        @ ''from plotly.validators import scatter as v_scatter\<newline>''
        @ ''\<newline>''
        @ ''\<newline>''
        @ ''class Scatter(BaseTraceType):\<newline>''
        @ ''\<newline>''
        @ ''    # x\<newline>''
        @ ''    # -\<newline>''
        @ ''    @property\<newline>''
        @ ''    def x(self) -> List:\<newline>''
        @ ''        """\<newline>''
        @ ''\<newline>''
        @ ''        """\<newline>''
        @ ''        return self['x']\<newline>''
        @ ''\<newline>''
        @ ''    @x.setter\<newline>''
        @ ''    def x(self, val):\<newline>''
        @ ''        self['x'] = val\<newline>''
        @ ''\<newline>''
        @ ''    # type\<newline>''
        @ ''    # ----\<newline>''
        @ ''    @property\<newline>''
        @ ''    def type(self) -> List:\<newline>''
        @ ''        return self._props['type']\<newline>''
        @ ''\<newline>''
        @ ''\<newline>''
        @ ''    # property parent name\<newline>''
        @ ''    # --------------------\<newline>''
        @ ''    @property\<newline>''
        @ ''    def _parent_path_str(self) -> str:\<newline>''
        @ ''        return '' @ sq @ sq @ ''\<newline>''
        @ ''\<newline>''
        @ ''    # Self properties description\<newline>''
        @ ''    # ---------------------------\<newline>''
        @ ''    @property\<newline>''
        @ ''    def _prop_descriptions(self) -> str:\<newline>''
        @ ''        return """'' @ backslash @ ''\<newline>''
        @ ''        """\<newline>''
        @ ''    def __init__(self,\<newline>''
        @ ''            x=None,\<newline>''
        @ ''            **kwargs\<newline>''
        @ ''        ):\<newline>''
        @ ''        """\<newline>''
        @ ''        Construct a new Scatter object\<newline>''
        @ ''        \<newline>''
        @ ''        Parameters\<newline>''
        @ ''        ----------\<newline>''
        @ ''\<newline>''
        @ ''        Returns\<newline>''
        @ ''        -------\<newline>''
        @ ''        Scatter\<newline>''
        @ ''        """\<newline>''
        @ ''        super().__init__('scatter', **kwargs)\<newline>''
        @ ''\<newline>''
        @ ''        # Initialize validators\<newline>''
        @ ''        # ---------------------\<newline>''
        @ ''        self._validators['x'] = v_scatter.XValidator()\<newline>''
        @ ''\<newline>''
        @ ''        # Populate data dict with properties\<newline>''
        @ ''        # ----------------------------------\<newline>''
        @ ''        self.x = x\<newline>''
        @ ''\<newline>''
        @ ''        # Read-only literals\<newline>''
        @ ''        # ------------------\<newline>''
        @ ''        self._props['type'] = 'scatter'' @ sq)\<close>
  by (simp add: build_datatype_py_def example_defs write_imports_def write_class_definition_def
      prop_type_of_def get_typing_type_def pytype_of_def property_docstring_def
      get_property_text_def set_property_text_def literal_property_text_def
      write_private_properties_def add_constructor_params_def add_docstring_def
      write_constructor_body_def dashes_def Let_def eval_nat_numeral)

text \<open>
  Claim C8 fails on the code: a trace whose only child is the literal \<^verbatim>\<open>type\<close> has no
  non-literal child, and \<^verbatim>\<open>build_datatype_py\<close> raises instead of returning a class.
\<close>

theorem zero_property_trace_raises:
  "is_compound bar_type_only_node \<and> child_datatypes bar_type_only_node = [] \<and>
   build_datatype_py wrap bar_type_only_node = Inl (UnboundLocalError ''prop_type'')"
proof -
  have a: "is_compound bar_type_only_node" "child_datatypes bar_type_only_node = []"
    "literal_nodes_of bar_type_only_node = [type_node ''bar'']"
    by (simp_all add: example_defs)
  then show ?thesis
    by (simp add: build_datatype_py_def Let_def)
qed

text \<open>
  Claim C9 fails on the code for the same reason: on the compound node whose one child is
  the literal \<^verbatim>\<open>type\<close> with the value \<^verbatim>\<open>scatter\<close>, no accessor is written and the
  call raises.
\<close>

theorem scatter_type_literal_raises:
  "is_compound scatter_type_only_node \<and>
   children scatter_type_only_node = [type_node ''scatter''] \<and>
   is_literal (type_node ''scatter'') \<and>
   plotly_name (attrs (type_node ''scatter'')) = ''type'' \<and>
   node_data (attrs (type_node ''scatter'')) = ''scatter'' \<and>
   build_datatype_py wrap scatter_type_only_node = Inl (UnboundLocalError ''prop_type'')"
proof -
  have a: "is_compound scatter_type_only_node" "child_datatypes scatter_type_only_node = []"
    "literal_nodes_of scatter_type_only_node = [type_node ''scatter'']"
    by (simp_all add: example_defs)
  have b: "children scatter_type_only_node = [type_node ''scatter'']"
    "is_literal (type_node ''scatter'')"
    "plotly_name (attrs (type_node ''scatter'')) = ''type''"
    "node_data (attrs (type_node ''scatter'')) = ''scatter''"
    by (simp_all add: example_defs)
  from a have "build_datatype_py wrap scatter_type_only_node = Inl (UnboundLocalError ''prop_type'')"
    by (simp add: build_datatype_py_def Let_def)
  with a b show ?thesis by simp
qed


section \<open>The docstring of a property\<close>

lemma color_validator_reindented:
  "reindent_validator_description
     ''    The color property is a color:\<newline>      - A hex string'' 4 =
   ''The color property is a color:\<newline>          - A hex string''"
  by (simp add: reindent_validator_description_def strip_def is_space_def spaces_def
      eval_nat_numeral)

lemma color_description_wrapped:
  "join ''\<newline>'' (wrap_short ''Sets the marker color'') = ''        Sets the marker color''"
  "strip ''        Sets the marker color'' \<noteq> []"
  "join ''\<newline>'' (wrap_short []) = []" "strip [] = []"
  by (simp_all add: wrap_short_def spaces_def eval_nat_numeral strip_def is_space_def)

lemma split_on_single_empty: "split_on c s = [[]] \<longleftrightarrow> s = []"
  by (cases s) (auto simp: split_on_not_Nil split: list.splits)

lemma reindent_empty: "reindent_validator_description d k = [] \<longleftrightarrow> strip d = []"
proof -
  obtain x xs where ls: "split_on CHR ''\<newline>'' (strip d) = x # xs"
    using split_on_not_Nil [of "CHR ''\<newline>''" "strip d"]
    by (cases "split_on CHR ''\<newline>'' (strip d)") auto
  have "reindent_validator_description d k = [] \<longleftrightarrow> x = [] \<and> xs = []"
    by (cases xs) (simp_all add: reindent_validator_description_def ls join_Cons)
  also have "\<dots> \<longleftrightarrow> strip d = []"
    using ls split_on_single_empty [of "CHR ''\<newline>''" "strip d"] by auto
  finally show ?thesis .
qed

lemma property_docstring_meets_spec:
  assumes "\<forall>v. validator (attrs c) = Some v \<longrightarrow> strip v \<noteq> []"
    and "join ''\<newline>'' (wrap (description (attrs c))) = []
         \<or> strip (join ''\<newline>'' (wrap (description (attrs c)))) \<noteq> []"
  shows "property_docstring wrap c = property_docstring_spec wrap c"
proof (cases "validator (attrs c)")
  case None
  then show ?thesis
    by (simp add: property_docstring_def property_docstring_spec_def Let_def)
next
  case (Some v)
  with assms(1) have "reindent_validator_description v 4 \<noteq> []"
    by (simp add: reindent_empty)
  moreover have "strip [] = []" by (simp add: strip_def)
  ultimately show ?thesis
    using Some assms(2)
    by (auto simp: property_docstring_def property_docstring_spec_def Let_def)
qed

text \<open>
  Claim C7, as the specification reads it, fails. The separator is written whenever the
  node has a validator and the wrapped description is not blank, whether or not the
  validator's description is empty: with a description and a validator whose description
  is empty, the docstring is the description followed by the separator, not the
  description alone.
\<close>

theorem property_docstring_spec_counterexample:
  "property_docstring wrap_short (PlotlyNode ((attrs color_node)\<lparr>validator := Some []\<rparr>) []) =
     ''        Sets the marker color\<newline>    \<newline>        '' \<and>
   property_docstring_spec wrap_short (PlotlyNode ((attrs color_node)\<lparr>validator := Some []\<rparr>) []) =
     ''        Sets the marker color'' \<and>
   property_docstring wrap_short (PlotlyNode ((attrs color_node)\<lparr>validator := Some []\<rparr>) []) \<noteq>
   property_docstring_spec wrap_short (PlotlyNode ((attrs color_node)\<lparr>validator := Some []\<rparr>) [])"
  by (simp add: property_docstring_def property_docstring_spec_def Let_def color_node_def
      leaf_attrs_def wrap_short_def reindent_validator_description_def strip_def is_space_def
      spaces_def eval_nat_numeral)

text \<open>
  Claim C7, amended. For a child with a validator and a wrapped description that is not
  blank, the docstring is the wrapped description, a line of nothing but four spaces, and
  the reindented validator description behind eight spaces. With a validator and a blank
  wrapped description it is the validator description alone, behind eight spaces; with
  no validator it is the wrapped description alone. With no validator and an empty
  description (which \<^verbatim>\<open>textwrap.wrap\<close> turns into no line at all) the docstring is
  empty, and the accessor is still written, its docstring block holding one empty line.
\<close>

theorem property_docstring_cases:
  "(validator (attrs c) = Some v \<and> strip (join ''\<newline>'' (wrap (description (attrs c)))) \<noteq> [] \<longrightarrow>
      property_docstring wrap c =
        join ''\<newline>'' (wrap (description (attrs c))) @ ''\<newline>    \<newline>        ''
          @ reindent_validator_description v 4
      \<and> split_on CHR ''\<newline>'' (property_docstring wrap c) =
          split_on CHR ''\<newline>'' (join ''\<newline>'' (wrap (description (attrs c))))
            @ [''    '']
            @ split_on CHR ''\<newline>'' (''        '' @ reindent_validator_description v 4))
   \<and> (validator (attrs c) = Some v \<and> strip (join ''\<newline>'' (wrap (description (attrs c)))) = [] \<longrightarrow>
      property_docstring wrap c = ''        '' @ reindent_validator_description v 4)
   \<and> (validator (attrs c) = None \<longrightarrow>
      property_docstring wrap c = join ''\<newline>'' (wrap (description (attrs c))))
   \<and> (validator (attrs c) = None \<and> description (attrs c) = [] \<and> wrap [] = [] \<longrightarrow>
      property_docstring wrap c = []
      \<and> (\<forall>u t buffer pt. prop_type_of u c = Inr t \<longrightarrow>
            write_properties wrap u (buffer, pt) [c] =
              Inr (buffer
                     @ ''\<newline>    # '' @ name_property (attrs c)
                     @ ''\<newline>    # '' @ dashes (length (name_property (attrs c)))
                     @ ''\<newline>    @property\<newline>    def '' @ name_property (attrs c)
                     @ ''(self) -> '' @ t
                     @ '':\<newline>        \"\"\"\<newline>\<newline>        \"\"\"\<newline>        return self[''
                     @ sq @ name_property (attrs c) @ sq @ '']''
                     @ set_property_text (name_property (attrs c)),
                   Some t)))"
proof (intro conjI impI allI)
  let ?pd = "join ''\<newline>'' (wrap (description (attrs c)))"
  let ?rv = "reindent_validator_description v 4"
  assume a: "validator (attrs c) = Some v \<and> strip ?pd \<noteq> []"
  then show eq: "property_docstring wrap c = ?pd @ ''\<newline>    \<newline>        '' @ ?rv"
    by (simp add: property_docstring_def Let_def)
  have "split_on CHR ''\<newline>'' (?pd @ CHR ''\<newline>'' # (''    '' @ CHR ''\<newline>'' # (''        '' @ ?rv)))
          = split_on CHR ''\<newline>'' ?pd
              @ split_on CHR ''\<newline>'' (''    '' @ CHR ''\<newline>'' # (''        '' @ ?rv))"
    by (rule split_on_append)
  also have "split_on CHR ''\<newline>'' (''    '' @ CHR ''\<newline>'' # (''        '' @ ?rv))
          = split_on CHR ''\<newline>'' ''    '' @ split_on CHR ''\<newline>'' (''        '' @ ?rv)"
    by (rule split_on_append)
  finally show "split_on CHR ''\<newline>'' (property_docstring wrap c) =
          split_on CHR ''\<newline>'' ?pd @ [''    '']
            @ split_on CHR ''\<newline>'' (''        '' @ ?rv)"
    unfolding eq by simp
next
  assume "validator (attrs c) = Some v \<and> strip (join ''\<newline>'' (wrap (description (attrs c)))) = []"
  then show "property_docstring wrap c = ''        '' @ reindent_validator_description v 4"
    by (simp add: property_docstring_def Let_def)
next
  assume "validator (attrs c) = None"
  then show "property_docstring wrap c = join ''\<newline>'' (wrap (description (attrs c)))"
    by (simp add: property_docstring_def Let_def)
next
  assume a: "validator (attrs c) = None \<and> description (attrs c) = [] \<and> wrap [] = []"
  then show e: "property_docstring wrap c = []"
    by (simp add: property_docstring_def Let_def)
  fix u t buffer pt
  assume "prop_type_of u c = Inr t"
  then show "write_properties wrap u (buffer, pt) [c] =
              Inr (buffer
                     @ ''\<newline>    # '' @ name_property (attrs c)
                     @ ''\<newline>    # '' @ dashes (length (name_property (attrs c)))
                     @ ''\<newline>    @property\<newline>    def '' @ name_property (attrs c)
                     @ ''(self) -> '' @ t
                     @ '':\<newline>        \"\"\"\<newline>\<newline>        \"\"\"\<newline>        return self[''
                     @ sq @ name_property (attrs c) @ sq @ '']''
                     @ set_property_text (name_property (attrs c)),
                   Some t)"
    by (simp add: Let_def e get_property_text_def)
qed

theorem property_docstring_cases_witness:
  "property_docstring wrap_short color_node =
     ''        Sets the marker color\<newline>    \<newline>        The color property is a color:\<newline>          - A hex string''
   \<and> property_docstring wrap_short (PlotlyNode ((attrs color_node)\<lparr>description := []\<rparr>) []) =
     ''        The color property is a color:\<newline>          - A hex string''
   \<and> property_docstring wrap_short (PlotlyNode ((attrs color_node)\<lparr>validator := None\<rparr>) []) =
     ''        Sets the marker color''
   \<and> property_docstring wrap_short size_node = []"
proof -
  let ?v = "''    The color property is a color:\<newline>      - A hex string''"
  let ?c2 = "PlotlyNode ((attrs color_node)\<lparr>description := []\<rparr>) []"
  let ?c3 = "PlotlyNode ((attrs color_node)\<lparr>validator := None\<rparr>) []"
  have d: "description (attrs color_node) = ''Sets the marker color''"
    "description (attrs ?c2) = []" "description (attrs ?c3) = ''Sets the marker color''"
    "description (attrs size_node) = []"
    by (simp_all add: color_node_def size_node_def leaf_attrs_def)
  have v: "validator (attrs color_node) = Some ?v" "validator (attrs ?c2) = Some ?v"
    "validator (attrs ?c3) = None" "validator (attrs size_node) = None"
    by (simp_all add: color_node_def size_node_def leaf_attrs_def)
  have "validator (attrs color_node) = Some ?v
      \<and> strip (join ''\<newline>'' (wrap_short (description (attrs color_node)))) \<noteq> []"
    unfolding d by (simp only: v color_description_wrapped simp_thms)
  from property_docstring_cases [of color_node ?v wrap_short, THEN conjunct1, THEN mp, OF this,
      THEN conjunct1]
  have 1: "property_docstring wrap_short color_node =
     ''        Sets the marker color\<newline>    \<newline>        The color property is a color:\<newline>          - A hex string''"
    unfolding d color_description_wrapped color_validator_reindented by simp
  have "validator (attrs ?c2) = Some ?v
      \<and> strip (join ''\<newline>'' (wrap_short (description (attrs ?c2)))) = []"
    unfolding d by (simp only: v color_description_wrapped simp_thms)
  from property_docstring_cases [of ?c2 ?v wrap_short, THEN conjunct2, THEN conjunct1, THEN mp,
      OF this]
  have 2: "property_docstring wrap_short ?c2 =
     ''        The color property is a color:\<newline>          - A hex string''"
    unfolding color_validator_reindented by simp
  from property_docstring_cases [of ?c3 ?v wrap_short, THEN conjunct2, THEN conjunct2,
      THEN conjunct1, THEN mp, OF v(3)]
  have 3: "property_docstring wrap_short ?c3 = ''        Sets the marker color''"
    unfolding d color_description_wrapped .
  have "validator (attrs size_node) = None \<and> description (attrs size_node) = []
      \<and> wrap_short [] = []"
    by (simp only: v d wrap_short_def simp_thms if_True)
  from property_docstring_cases [of size_node ?v wrap_short, THEN conjunct2, THEN conjunct2,
      THEN conjunct2, THEN mp, OF this, THEN conjunct1]
  have 4: "property_docstring wrap_short size_node = []" .
  from 1 2 3 4 show ?thesis by (intro conjI)
qed

section \<open>The annotation of a leaf property\<close>






section \<open>The constructor signature in the class text\<close>

text \<open>
  Every write appends to the buffer, so the text \<^verbatim>\<open>build_datatype_py\<close> returns is the
  sequence of its sections: imports and class line, accessor pairs, literal accessors,
  private properties, the constructor signature, the class docstring and the constructor
  body.
\<close>

lemma add_constructor_params_appends:
  "add_constructor_params buffer ns = buffer @ add_constructor_params [] ns"
  by (simp add: add_constructor_params_text)

lemma add_docstring_from_empty:
  "add_docstring wrap buffer node header =
     (case add_docstring wrap [] node header of
        Inl e \<Rightarrow> Inl e
      | Inr doc \<Rightarrow> Inr (buffer @ doc))"
  by (simp add: add_docstring_def Let_def)

lemma write_constructor_body_from_empty:
  "write_constructor_body buffer node ns = buffer @ write_constructor_body [] node ns"
  by (simp add: write_constructor_body_def Let_def foldl_write)

lemma write_literals_text:
  assumes "write_literals (if ts = [] then None else Some (last ts)) buffer ls = Inr buffer'"
  shows "buffer' =
           buffer @ concat (map (\<lambda>l. literal_property_text (name_property (attrs l)) (last ts)) ls)"
  using assms
  by (cases "ts = []") (auto simp: write_literals_bound write_literals_unbound split: if_splits)

lemma build_datatype_py_text:
  assumes "build_datatype_py wrap node = Inr src"
  shows "\<exists>ts doc.
           list_all2 (\<lambda>c t. prop_type_of (name_undercase (attrs node)) c = Inr t)
             (child_datatypes node) ts
         \<and> add_docstring wrap [] node
               (''Construct a new '' @ name_datatype_class (attrs node) @ '' object'') = Inr doc
         \<and> src =
             write_class_definition (write_imports [] node) node
               @ concat (map2 (accessor_pair wrap) (child_datatypes node) ts)
               @ concat (map (\<lambda>l. literal_property_text (name_property (attrs l)) (last ts))
                           (literal_nodes_of node))
               @ write_private_properties [] node
               @ ''\<newline>    def __init__(self''
               @ add_constructor_params [] (child_datatypes node)
               @ doc
               @ write_constructor_body [] node (child_datatypes node)"
proof -
  let ?u = "name_undercase (attrs node)"
  let ?cs = "child_datatypes node"
  let ?head = "write_class_definition (write_imports [] node) node"
  let ?header = "''Construct a new '' @ name_datatype_class (attrs node) @ '' object''"
  from assms have c: "is_compound node"
    by (auto simp: build_datatype_py_def split: if_splits)
  from assms c obtain buffer pt where
    wp: "write_properties wrap ?u (?head, None) ?cs = Inr (buffer, pt)"
    by (cases "write_properties wrap ?u (?head, None) ?cs")
       (auto simp: build_datatype_py_def Let_def)
  from write_properties_types [OF wp] obtain ts where
    ts: "list_all2 (\<lambda>c t. prop_type_of ?u c = Inr t) ?cs ts" by blast
  from write_properties_run [OF ts, of wrap ?head None] wp have
    buffer: "buffer = ?head @ concat (map2 (accessor_pair wrap) ?cs ts)"
    and pt: "pt = (if ts = [] then None else Some (last ts))" by simp_all
  from assms c wp obtain buffer2 where
    wl: "write_literals pt buffer (literal_nodes_of node) = Inr buffer2"
    by (cases "write_literals pt buffer (literal_nodes_of node)")
       (auto simp: build_datatype_py_def Let_def)
  from write_literals_text [OF wl [unfolded pt]] have
    buffer2: "buffer2 = buffer
       @ concat (map (\<lambda>l. literal_property_text (name_property (attrs l)) (last ts))
                   (literal_nodes_of node))" .
  from add_docstring_compound [OF c, of wrap "[]" ?header] obtain doc where
    doc: "add_docstring wrap [] node ?header = Inr doc" by blast
  let ?b3 = "add_constructor_params
               (write_private_properties buffer2 node @ ''\<newline>    def __init__(self'') ?cs"
  have ad: "add_docstring wrap ?b3 node ?header = Inr (?b3 @ doc)"
    using doc by (subst add_docstring_from_empty) simp
  from assms c wp wl ad have
    out: "src = write_constructor_body (?b3 @ doc) node ?cs"
    by (simp add: build_datatype_py_def Let_def)
  have b3: "?b3 = buffer2 @ write_private_properties [] node
          @ ''\<newline>    def __init__(self'' @ add_constructor_params [] ?cs"
    by (subst add_constructor_params_appends, subst write_private_properties_appends) simp
  have "src = (?b3 @ doc) @ write_constructor_body [] node ?cs"
    unfolding out by (rule write_constructor_body_from_empty)
  also have "\<dots> = ?head @ concat (map2 (accessor_pair wrap) ?cs ts)
               @ concat (map (\<lambda>l. literal_property_text (name_property (attrs l)) (last ts))
                           (literal_nodes_of node))
               @ write_private_properties [] node
               @ ''\<newline>    def __init__(self''
               @ add_constructor_params [] ?cs
               @ doc
               @ write_constructor_body [] node ?cs"
    using b3 buffer2 buffer by simp
  finally show ?thesis using ts doc by blast
qed

lemma literal_entry_not_in_signature:
  assumes "distinct (map (\<lambda>c. name_property (attrs c)) (children node))"
    and "l \<in> set (children node)" and "is_literal l"
  shows "''\<newline>            '' @ name_property (attrs l) @ ''=None''
           \<notin> set ([] # map (\<lambda>c. ''\<newline>            '' @ name_property (attrs c) @ ''=None'')
                         (filter (\<lambda>c. \<not> is_literal c) (children node))
                    @ [''\<newline>            **kwargs\<newline>        ):''])"
proof -
  have "name_property (attrs l) @ ''=None'' \<noteq> ''**kwargs\<newline>        ):''"
  proof
    assume "name_property (attrs l) @ ''=None'' = ''**kwargs\<newline>        ):''"
    then have "last (name_property (attrs l) @ ''=None'') = last ''**kwargs\<newline>        ):''"
      by (rule arg_cong)
    then show False by simp
  qed
  moreover have "name_property (attrs l)
      \<notin> set (map (\<lambda>c. name_property (attrs c)) (child_datatypes node))"
    using assms by (rule literal_not_param)
  ultimately show ?thesis
    by (auto simp: child_datatypes_def)
qed

text \<open>
  Claim C2. In the text \<^verbatim>\<open>build_datatype_py\<close> returns for a node, the constructor
  signature stands between \<^verbatim>\<open>def __init__(self\<close> and the class docstring. Between its
  commas it has exactly one entry \<^verbatim>\<open>name=None\<close> per non-literal child of the node, in
  the order of the children, and \<^verbatim>\<open>**kwargs\<close> as its last entry; every entry has a
  default, so none is required; and no entry is the parameter of a literal child. The
  names are identifiers (they hold no comma) and unique among the children.
\<close>

theorem constructor_signature_of_class_text:
  assumes "build_datatype_py wrap node = Inr text"
    and "\<forall>c \<in> set (children node). CHR '','' \<notin> set (name_property (attrs c))"
    and "distinct (map (\<lambda>c. name_property (attrs c)) (children node))"
  shows "\<exists>ts sig doc.
           list_all2 (\<lambda>c t. prop_type_of (name_undercase (attrs node)) c = Inr t)
             (child_datatypes node) ts
         \<and> add_docstring wrap [] node
               (''Construct a new '' @ name_datatype_class (attrs node) @ '' object'') = Inr doc
         \<and> text =
             write_class_definition (write_imports [] node) node
               @ concat (map2 (accessor_pair wrap) (child_datatypes node) ts)
               @ concat (map (\<lambda>l. literal_property_text (name_property (attrs l)) (last ts))
                           (literal_nodes_of node))
               @ write_private_properties [] node
               @ ''\<newline>    def __init__(self''
               @ sig
               @ doc
               @ write_constructor_body [] node (child_datatypes node)
         \<and> split_on CHR '','' sig =
             [] # map (\<lambda>c. ''\<newline>            '' @ name_property (attrs c) @ ''=None'')
                    (filter (\<lambda>c. \<not> is_literal c) (children node))
               @ [''\<newline>            **kwargs\<newline>        ):'']
         \<and> (\<forall>l \<in> set (children node). is_literal l \<longrightarrow>
               ''\<newline>            '' @ name_property (attrs l) @ ''=None''
                 \<notin> set (split_on CHR '','' sig))"
proof -
  let ?sig = "add_constructor_params [] (child_datatypes node)"
  let ?fields = "[] # map (\<lambda>c. ''\<newline>            '' @ name_property (attrs c) @ ''=None'')
                    (filter (\<lambda>c. \<not> is_literal c) (children node))
               @ [''\<newline>            **kwargs\<newline>        ):'']"
  from build_datatype_py_text [OF assms(1)] obtain ts doc where
    ts: "list_all2 (\<lambda>c t. prop_type_of (name_undercase (attrs node)) c = Inr t)
             (child_datatypes node) ts"
    and doc: "add_docstring wrap [] node
               (''Construct a new '' @ name_datatype_class (attrs node) @ '' object'') = Inr doc"
    and out: "text =
             write_class_definition (write_imports [] node) node
               @ concat (map2 (accessor_pair wrap) (child_datatypes node) ts)
               @ concat (map (\<lambda>l. literal_property_text (name_property (attrs l)) (last ts))
                           (literal_nodes_of node))
               @ write_private_properties [] node
               @ ''\<newline>    def __init__(self''
               @ ?sig
               @ doc
               @ write_constructor_body [] node (child_datatypes node)"
    by blast
  from assms(2) have "\<forall>n \<in> set (child_datatypes node). CHR '','' \<notin> set (name_property (attrs n))"
    by (simp add: child_datatypes_def)
  then have fields: "split_on CHR '','' ?sig = ?fields"
    unfolding child_datatypes_def [symmetric] by (rule params_fields)
  have "\<forall>l \<in> set (children node). is_literal l \<longrightarrow>
               ''\<newline>            '' @ name_property (attrs l) @ ''=None''
                 \<notin> set (split_on CHR '','' ?sig)"
    unfolding fields using literal_entry_not_in_signature [OF assms(3)] by blast
  with ts doc out fields show ?thesis by blast
qed

theorem constructor_signature_of_class_text_witness:
  "\<exists>src pre sig post.
     build_datatype_py wrap_short scatter_node = Inr src
   \<and> src = pre @ ''\<newline>    def __init__(self'' @ sig @ post
   \<and> split_on CHR '','' sig =
       [[], ''\<newline>            x=None'', ''\<newline>            **kwargs\<newline>        ):'']
   \<and> ''\<newline>            type=None'' \<notin> set (split_on CHR '','' sig)"
proof -
  from scatter_node_class_text have "\<exists>src. build_datatype_py wrap_short scatter_node = Inr src"
    by (rule exI)
  then obtain src where t: "build_datatype_py wrap_short scatter_node = Inr src" by blast
  have a: "\<forall>c \<in> set (children scatter_node). CHR '','' \<notin> set (name_property (attrs c))"
    by (simp add: example_defs)
  have b: "distinct (map (\<lambda>c. name_property (attrs c)) (children scatter_node))"
    by (simp add: example_defs)
  have c: "type_node ''scatter'' \<in> set (children scatter_node)"
    "is_literal (type_node ''scatter'')"
    "name_property (attrs (type_node ''scatter'')) = ''type''"
    "filter (\<lambda>c. \<not> is_literal c) (children scatter_node) = [x_node]"
    "name_property (attrs x_node) = ''x''"
    by (simp_all add: example_defs)
  from constructor_signature_of_class_text [OF t a b] obtain ts sig doc where
    out: "src =
             write_class_definition (write_imports [] scatter_node) scatter_node
               @ concat (map2 (accessor_pair wrap_short) (child_datatypes scatter_node) ts)
               @ concat (map (\<lambda>l. literal_property_text (name_property (attrs l)) (last ts))
                           (literal_nodes_of scatter_node))
               @ write_private_properties [] scatter_node
               @ ''\<newline>    def __init__(self''
               @ sig
               @ doc
               @ write_constructor_body [] scatter_node (child_datatypes scatter_node)"
    and fields: "split_on CHR '','' sig =
             [] # map (\<lambda>c. ''\<newline>            '' @ name_property (attrs c) @ ''=None'')
                    (filter (\<lambda>c. \<not> is_literal c) (children scatter_node))
               @ [''\<newline>            **kwargs\<newline>        ):'']"
    and excl: "\<forall>l \<in> set (children scatter_node). is_literal l \<longrightarrow>
               ''\<newline>            '' @ name_property (attrs l) @ ''=None''
                 \<notin> set (split_on CHR '','' sig)"
    by blast
  let ?pre = "write_class_definition (write_imports [] scatter_node) scatter_node
               @ concat (map2 (accessor_pair wrap_short) (child_datatypes scatter_node) ts)
               @ concat (map (\<lambda>l. literal_property_text (name_property (attrs l)) (last ts))
                           (literal_nodes_of scatter_node))
               @ write_private_properties [] scatter_node"
  let ?post = "doc @ write_constructor_body [] scatter_node (child_datatypes scatter_node)"
  from out have 1: "src = ?pre @ ''\<newline>    def __init__(self'' @ sig @ ?post" by simp
  from fields c(4,5) have 2: "split_on CHR '','' sig =
       [[], ''\<newline>            x=None'', ''\<newline>            **kwargs\<newline>        ):'']"
    by simp
  from excl c(1,2) have "''\<newline>            '' @ name_property (attrs (type_node ''scatter'')) @ ''=None''
      \<notin> set (split_on CHR '','' sig)" by blast
  with c(3) have 3: "''\<newline>            type=None'' \<notin> set (split_on CHR '','' sig)"
    by simp
  from t 1 2 3 show ?thesis by blast
qed

end
